theory Spec2Isabelle
  imports Complex_Main "HOL-Library.Product_Lexorder"
begin

section \<open>Cosmic-ray injection: a model of romanisim/cr.py\<close>

text \<open>
  The module draws cosmic-ray events, rasterises each trail over the pixel grid
  (\<open>traverse\<close>) and adds Poisson counts to the image (\<open>simulate_crs\<close>).

  Numbers: a Python or numpy float is a \<open>real\<close> here, so rounding, overflow and
  signed zeros are not modelled; the concrete inputs used below are dyadic
  fractions on which the float operations of the source are exact, or inputs whose
  result is decided far from any rounding threshold. The one place where a
  non-finite float decides a result, the normalisation \<open>cdf_y /= cdf_y.max()\<close> of
  \<open>create_sampler\<close>, is modelled with an explicit value for NaN and the infinities.
  An index array (\<open>astype(int)\<close>) is an \<open>int list\<close>.

  Exceptions are values: a function that can raise returns \<open>error + 'a\<close>.
  \<open>NonFinite\<close> is no Python exception: it marks the point where numpy divides an
  array by a zero scalar and goes on with \<open>inf\<close> or \<open>nan\<close>, values that a \<open>real\<close>
  does not have; the model follows the run no further. \<open>BdbQuit\<close> is what the
  debugger raises when its session ends the run.
\<close>

datatype error =
    UnboundLocalError
  | IndexError
  | ValueError
  | ZeroDivisionError
  | NonFinite
  | BdbQuit

type_synonym point = "real \<times> real"

subsection \<open>\<open>traverse\<close>\<close>

text \<open>
  \<open>np.sign(d) * np.arange(0, np.floor(np.absolute(d) + 1))\<close>: the offsets
  \<open>0, sign d, 2 sign d, ...\<close>, one for each integer below \<open>floor (|d| + 1)\<close>.
\<close>

definition borders :: "real \<Rightarrow> real list" where
  "borders d = map (\<lambda>k. sgn d * real k) [0 ..< nat \<lfloor>\<bar>d\<bar> + 1\<rfloor>]"

text \<open>
  Lines 176 to 182: the endpoint with the smaller first coordinate becomes
  \<open>(i0, j0)\<close>; on a tie the \<open>else\<close> branch takes \<open>trail_end\<close> as \<open>(i0, j0)\<close>.
\<close>

definition orient :: "point \<Rightarrow> point \<Rightarrow> point \<times> point" where
  "orient trail_start trail_end =
     (if fst trail_start < fst trail_end then (trail_start, trail_end)
      else (trail_end, trail_start))"

text \<open>
  Lines 187 to 193 and 195 to 201. \<open>borders_i @ step_i\<close> is the product of a column
  with the row \<open>[1, dj / di]\<close>, so each offset \<open>b\<close> gives the row
  \<open>(b * 1, b * (dj / di))\<close>, added to \<open>(i0, j0)\<close>. Without motion along the axis
  the array stays the single point \<open>(i0, j0)\<close>.
\<close>

definition cross_i :: "point \<Rightarrow> real \<Rightarrow> real \<Rightarrow> point list" where
  "cross_i p0 di dj =
     (if di \<noteq> 0
      then map (\<lambda>b. (fst p0 + b * 1, snd p0 + b * (dj / di))) (borders di)
      else [p0])"

definition cross_j :: "point \<Rightarrow> real \<Rightarrow> real \<Rightarrow> point list" where
  "cross_j p0 di dj =
     (if dj \<noteq> 0
      then map (\<lambda>b. (fst p0 + b * (di / dj), snd p0 + b * 1)) (borders dj)
      else [p0])"

text \<open>
  \<open>crossings[np.argsort(crossings[:, 0])]\<close> orders the rows by their first column;
  \<open>np.unique(crossings, axis=0)\<close> then returns the distinct rows in lexicographic
  order, which is the order of pairs of \<open>Product_Lexorder\<close>.
\<close>

definition argsort_rows :: "point list \<Rightarrow> point list" where
  "argsort_rows cs = sort_key fst cs"

definition np_unique :: "point list \<Rightarrow> point list" where
  "np_unique cs = sort (remdups cs)"

definition outside :: "real \<Rightarrow> real \<Rightarrow> point \<Rightarrow> bool" where
  "outside N_i N_j c = (fst c < 0 \<or> fst c > N_i \<or> snd c < 0 \<or> snd c > N_j)"

text \<open>Lines 176 to 213: the crossings that survive the detector edge.\<close>

definition crossings :: "point \<Rightarrow> point \<Rightarrow> real \<Rightarrow> real \<Rightarrow> point list" where
  "crossings trail_start trail_end N_i N_j =
     (let (p0, p1) = orient trail_start trail_end;
          di = fst p1 - fst p0;
          dj = snd p1 - snd p0
      in filter (\<lambda>c. \<not> outside N_i N_j c)
           (np_unique (argsort_rows (cross_i p0 di dj @ cross_j p0 di dj))))"

text \<open>\<open>np.diff(crossings, axis=0)\<close>: the differences of consecutive rows.\<close>

fun np_diff :: "point list \<Rightarrow> point list" where
  "np_diff (p # q # ps) = (fst q - fst p, snd q - snd p) # np_diff (q # ps)"
| "np_diff ps = []"

text \<open>\<open>(diffs ** 2).sum(1) ** 0.5\<close>, one row at a time.\<close>

definition row_norm :: "point \<Rightarrow> real" where
  "row_norm d = sqrt ((fst d)\<^sup>2 + (snd d)\<^sup>2)"

text \<open>
  \<open>np.isclose(a, b)\<close> with numpy's default tolerances:
  \<open>|a - b| \<le> atol + rtol * |b|\<close>, \<open>atol = 1e-8\<close>, \<open>rtol = 1e-5\<close>.
\<close>

definition isclose :: "real \<Rightarrow> real \<Rightarrow> bool" where
  "isclose a b = (\<bar>a - b\<bar> \<le> 1 / 10 ^ 8 + (1 / 10 ^ 5) * \<bar>b\<bar>)"

definition frac_part :: "point \<Rightarrow> point" where
  "frac_part c = (fst c - of_int \<lfloor>fst c\<rfloor>, snd c - of_int \<lfloor>snd c\<rfloor>)"

text \<open>
  Lines 215 to 235. With more than one crossing the pixel of a crossing is its
  floor. When the fractional part of the last crossing is close to zero the source
  shortens \<open>ii\<close> and \<open>jj\<close> and computes \<open>diffs\<close>, but the assignment to \<open>lengths\<close>
  sits inside the \<open>else\<close> branch (line 230): \<open>return ii, jj, lengths\<close> then reads a
  local that was never bound, which raises \<open>UnboundLocalError\<close>. Otherwise
  \<open>lengths\<close> are the norms of the consecutive differences followed by the norm of
  the fractional part of the last crossing. With at most one crossing the single
  length is the length of the whole trail.
\<close>

definition traverse ::
  "point \<Rightarrow> point \<Rightarrow> real \<Rightarrow> real \<Rightarrow> error + (int list \<times> int list \<times> real list)" where
  "traverse trail_start trail_end N_i N_j =
     (let (p0, p1) = orient trail_start trail_end;
          di = fst p1 - fst p0;
          dj = snd p1 - snd p0;
          cs = crossings trail_start trail_end N_i N_j
      in if length cs > 1 then
           (let ii = map (\<lambda>c. \<lfloor>fst c\<rfloor>) cs;
                jj = map (\<lambda>c. \<lfloor>snd c\<rfloor>) cs;
                last_diff = frac_part (last cs)
            in if isclose (fst last_diff) 0 \<and> isclose (snd last_diff) 0
               then Inl UnboundLocalError
               else Inr (ii, jj, map row_norm (np_diff cs @ [last_diff])))
         else Inr (map (\<lambda>c. \<lfloor>fst c\<rfloor>) cs, map (\<lambda>c. \<lfloor>snd c\<rfloor>) cs,
                   [sqrt (di\<^sup>2 + dj\<^sup>2)]))"

subsection \<open>\<open>create_sampler\<close> and the two densities\<close>

text \<open>
  A float that may be non-finite. numpy's true division does not raise on a zero
  divisor: it gives \<open>nan\<close> for \<open>0 / 0\<close> and an infinity otherwise (with a
  \<open>RuntimeWarning\<close>, which is no exception).
\<close>

datatype npfloat = Fin real | PInf | NInf | NaN

definition np_divide :: "real \<Rightarrow> real \<Rightarrow> npfloat" where
  "np_divide a b =
     (if b \<noteq> 0 then Fin (a / b)
      else if a = 0 then NaN
      else if 0 < a then PInf
      else NInf)"

fun cumsum_from :: "real \<Rightarrow> real list \<Rightarrow> real list" where
  "cumsum_from acc [] = []"
| "cumsum_from acc (y # ys) = (acc + y) # cumsum_from (acc + y) ys"

definition np_cumsum :: "real list \<Rightarrow> real list" where
  "np_cumsum ys = cumsum_from 0 ys"

text \<open>
  The object built by \<open>scipy.interpolate.interp1d(x, y)\<close> with its defaults: the
  two arrays ordered by a stable argsort of \<open>x\<close>, which puts \<open>nan\<close> last. The
  constructor raises \<open>ValueError\<close> on arrays of different lengths and on empty ones;
  it does not look at the values, so \<open>nan\<close> knots are stored as they are.
\<close>

record sampler =
  knots :: "npfloat list"
  ordinates :: "real list"

fun sort_rank :: "npfloat \<Rightarrow> nat \<times> real" where
  "sort_rank NInf = (0, 0)"
| "sort_rank (Fin r) = (1, r)"
| "sort_rank PInf = (2, 0)"
| "sort_rank NaN = (3, 0)"

definition interp1d :: "npfloat list \<Rightarrow> real list \<Rightarrow> error + sampler" where
  "interp1d x y =
     (if length x \<noteq> length y then Inl ValueError
      else if length x < 1 then Inl ValueError
      else let ps = sort_key (\<lambda>p. sort_rank (fst p)) (zip x y)
           in Inr \<lparr>knots = map fst ps, ordinates = map snd ps\<rparr>)"

text \<open>
  Lines 24 to 28. The density is applied to the grid point by point, as both
  densities of the module are. \<open>y[0]\<close> raises \<open>IndexError\<close> on an empty grid.
  There is no check of the sum before the division and no \<open>raise\<close> in the function.
\<close>

definition create_sampler :: "(real \<Rightarrow> real) \<Rightarrow> real list \<Rightarrow> error + sampler" where
  "create_sampler pdf x =
     (let y = map pdf x
      in case y of
           [] \<Rightarrow> Inl IndexError
         | y0 # _ \<Rightarrow>
             (let cdf_y = map (\<lambda>c. c - y0) (np_cumsum y);
                  m = fold max (tl cdf_y) (hd cdf_y);
                  cdf_y = map (\<lambda>c. np_divide c m) cdf_y
              in interp1d cdf_y x))"

text \<open>
  Lines 50 to 52 and line 72. \<open>np.power(x, slope)\<close> is \<open>x powr slope\<close> for
  \<open>x > 0\<close>, which is where the module evaluates it (path lengths from 10 to 2000).
\<close>

definition moyal_distribution :: "real \<Rightarrow> real \<Rightarrow> real \<Rightarrow> real" where
  "moyal_distribution x location scale =
     (let xs = (x - location) / scale
      in exp (- (xs + exp (- xs)) / 2))"

definition power_law_distribution :: "real \<Rightarrow> real \<Rightarrow> real" where
  "power_law_distribution x slope = x powr slope"

subsection \<open>The random generator and \<open>sample_cr_params\<close>\<close>

text \<open>
  What the module uses of numpy's \<open>Generator\<close> and of the sampler object, as
  operations on a generator state \<open>'g\<close>: \<open>default_rng(seed)\<close>; one draw of
  \<open>rng.random\<close>, which returns the number and the advanced state; one draw of
  \<open>rng.poisson(lam)\<close>, a count (never negative), or the \<open>ValueError\<close> numpy raises
  on a mean it rejects; and the evaluation of an \<open>interp1d\<close> object at a point,
  which raises \<open>ValueError\<close> outside the range of its knots.
\<close>

record 'g numpy =
  default_rng :: "int \<Rightarrow> 'g"
  random :: "'g \<Rightarrow> real \<times> 'g"
  poisson :: "real \<Rightarrow> 'g \<Rightarrow> error + nat \<times> 'g"
  interp :: "sampler \<Rightarrow> real \<Rightarrow> error + real"

text \<open>\<open>rng.random(n)\<close>: \<open>n\<close> draws, in order.\<close>

fun draws :: "'g numpy \<Rightarrow> nat \<Rightarrow> 'g \<Rightarrow> real list \<times> 'g" where
  "draws R 0 g = ([], g)"
| "draws R (Suc n) g =
     (let (u, g1) = random R g;
          (us, g2) = draws R n g1
      in (u # us, g2))"

text \<open>\<open>rng.poisson(lams)\<close> on an array: one draw for each mean, in order.\<close>

fun poisson_each :: "'g numpy \<Rightarrow> real list \<Rightarrow> 'g \<Rightarrow> error + nat list \<times> 'g" where
  "poisson_each R [] g = Inr ([], g)"
| "poisson_each R (lam # lams) g =
     (case poisson R lam g of
        Inl e \<Rightarrow> Inl e
      | Inr (n, g1) \<Rightarrow>
          (case poisson_each R lams g1 of
             Inl e \<Rightarrow> Inl e
           | Inr (ns, g2) \<Rightarrow> Inr (n # ns, g2)))"

text \<open>The sampler object called on an array: the first error wins.\<close>

fun interp_each :: "'g numpy \<Rightarrow> sampler \<Rightarrow> real list \<Rightarrow> error + real list" where
  "interp_each R s [] = Inr []"
| "interp_each R s (u # us) =
     (case interp R s u of
        Inl e \<Rightarrow> Inl e
      | Inr v \<Rightarrow>
          (case interp_each R s us of
             Inl e \<Rightarrow> Inl e
           | Inr vs \<Rightarrow> Inr (v # vs)))"

text \<open>\<open>np.linspace(a, b, n)\<close>: \<open>n\<close> evenly spaced points from \<open>a\<close> to \<open>b\<close>.\<close>

definition linspace :: "real \<Rightarrow> real \<Rightarrow> nat \<Rightarrow> real list" where
  "linspace a b n = map (\<lambda>k. a + real k * ((b - a) / real (n - 1))) [0 ..< n]"

text \<open>The rows of an array of shape \<open>(n, 2)\<close> filled in row-major order.\<close>

fun rows2 :: "real list \<Rightarrow> point list" where
  "rows2 (a # b # xs) = (a, b) # rows2 xs"
| "rows2 xs = []"

text \<open>
  Lines 131 to 150. The generator is drawn from in the order of the source:
  \<open>2 * N_samples\<close> numbers for the positions, \<open>N_samples\<close> for the directions,
  then for the lengths and for the energy losses. The result carries the
  generator state, which the source advances in place.
\<close>

definition sample_cr_params ::
  "'g numpy \<Rightarrow> nat \<Rightarrow> real \<Rightarrow> real \<Rightarrow> real \<Rightarrow> real \<Rightarrow> real \<Rightarrow> real \<Rightarrow> nat \<Rightarrow> 'g option \<Rightarrow> int
   \<Rightarrow> error + (real list \<times> real list \<times> real list \<times> real list \<times> real list) \<times> 'g" where
  "sample_cr_params R N_samples N_i N_j min_dEdx max_dEdx min_cr_len max_cr_len grid_size
       rng seed =
     (let g0 = (case rng of None \<Rightarrow> default_rng R seed | Some g \<Rightarrow> g);
          (us, g1) = draws R (2 * N_samples) g0;
          cr_i = map (\<lambda>p. fst p * N_i) (rows2 us);
          cr_j = map (\<lambda>p. snd p * N_j) (rows2 us);
          (up, g2) = draws R N_samples g1;
          cr_phi = map (\<lambda>u. u * 2 * pi) up;
          len_grid = linspace min_cr_len max_cr_len grid_size
      in case create_sampler (\<lambda>x. power_law_distribution x (- 433 / 100)) len_grid of
           Inl e \<Rightarrow> Inl e
         | Inr inv_cdf_len \<Rightarrow>
             (let (ul, g3) = draws R N_samples g2
              in case interp_each R inv_cdf_len ul of
                   Inl e \<Rightarrow> Inl e
                 | Inr cr_length \<Rightarrow>
                     (let dEdx_grid = linspace min_dEdx max_dEdx grid_size
                      in case create_sampler (\<lambda>x. moyal_distribution x 1000 300) dEdx_grid of
                           Inl e \<Rightarrow> Inl e
                         | Inr inv_cdf_dEdx \<Rightarrow>
                             (let (ud, g4) = draws R N_samples g3
                              in case interp_each R inv_cdf_dEdx ud of
                                   Inl e \<Rightarrow> Inl e
                                 | Inr cr_dEdx \<Rightarrow>
                                     Inr ((cr_i, cr_j, cr_phi, cr_length, cr_dEdx), g4)))))"

subsection \<open>The image and \<open>image[ii, jj] += values\<close>\<close>

text \<open>
  A two-dimensional float array: its shape and its pixels. Only the pixels inside
  the shape are ever read or written.
\<close>

record image =
  n_i :: nat
  n_j :: nat
  pix :: "nat \<times> nat \<Rightarrow> real"

text \<open>
  numpy's rule for one index into an axis of length \<open>n\<close>: a negative index counts
  from the end, anything outside \<open>-n .. n - 1\<close> raises \<open>IndexError\<close>.
\<close>

definition np_index :: "nat \<Rightarrow> int \<Rightarrow> error + nat" where
  "np_index n i =
     (if 0 \<le> i \<and> i < int n then Inr (nat i)
      else if - int n \<le> i \<and> i < 0 then Inr (nat (i + int n))
      else Inl IndexError)"

fun index_each :: "image \<Rightarrow> (int \<times> int) list \<Rightarrow> error + (nat \<times> nat) list" where
  "index_each im [] = Inr []"
| "index_each im ((i, j) # ijs) =
     (case np_index (n_i im) i of
        Inl e \<Rightarrow> Inl e
      | Inr p \<Rightarrow>
          (case np_index (n_j im) j of
             Inl e \<Rightarrow> Inl e
           | Inr q \<Rightarrow>
               (case index_each im ijs of
                  Inl e \<Rightarrow> Inl e
                | Inr pqs \<Rightarrow> Inr ((p, q) # pqs))))"

text \<open>
  The in-place addition broadcasts the values to the shape of the selection: the
  lengths agree, or there is a single value; anything else raises \<open>ValueError\<close>.
\<close>

definition broadcast_to :: "nat \<Rightarrow> 'a list \<Rightarrow> error + 'a list" where
  "broadcast_to n vs =
     (if length vs = n then Inr vs
      else if length vs = 1 then Inr (replicate n (hd vs))
      else Inl ValueError)"

text \<open>
  \<open>image[ii, jj] += values\<close> reads the selected pixels, adds, and writes the sums
  back one index pair after the other. Every sum is formed from the pixel as it
  was before the statement, so for a pixel selected twice the last write stays.
\<close>

definition write_back :: "image \<Rightarrow> (nat \<times> nat) list \<Rightarrow> real list \<Rightarrow> image" where
  "write_back im pqs vs =
     im\<lparr>pix := fold (\<lambda>(pq, v) f. f(pq := v))
                  (zip pqs (map2 (\<lambda>pq v. pix im pq + v) pqs vs)) (pix im)\<rparr>"

subsection \<open>\<open>simulate_crs\<close>\<close>

text \<open>
  What a call leaves behind besides its result: the image buffer, the state of the
  generator, and the interactions with the outside, of which the module has one,
  the call of the debugger \<open>pdb.set_trace()\<close> at lines 291 to 293. The model
  records the call and goes on, as the run does when the debugger is told to
  continue.
\<close>

datatype interaction = PdbSetTrace

record 'g world =
  img :: image
  gen :: 'g
  interactions :: "interaction list"

text \<open>
  Lines 288 to 293, one iteration of the loop. \<open>traverse\<close> is called without
  bounds, so with its defaults \<open>N_i = N_j = 4096\<close>. \<open>pixel_depth / pixel_size\<close>
  divides two Python numbers and raises \<open>ZeroDivisionError\<close> on zero. In line 290
  the selection \<open>image[ii, jj]\<close> is read first, then the counts are drawn, then the
  sums are written.
\<close>

definition inject ::
  "'g numpy \<Rightarrow> real \<Rightarrow> real \<Rightarrow> real \<times> real \<times> real \<times> real \<times> real \<Rightarrow> 'g world \<Rightarrow> error + 'g world" where
  "inject R pixel_size pixel_depth ev w =
     (case ev of (i0, j0, i1, j1, counts_per_pix) \<Rightarrow>
      (case traverse (i0, j0) (i1, j1) 4096 4096 of
         Inl e \<Rightarrow> Inl e
       | Inr (ii, jj, length_2d) \<Rightarrow>
           if pixel_size = 0 then Inl ZeroDivisionError
           else
             (let length_3d = map (\<lambda>l. sqrt ((pixel_depth / pixel_size)\<^sup>2 + l\<^sup>2)) length_2d
              in case index_each (img w) (zip ii jj) of
                   Inl e \<Rightarrow> Inl e
                 | Inr pqs \<Rightarrow>
                     (case poisson_each R (map (\<lambda>l. counts_per_pix * l) length_3d) (gen w) of
                        Inl e \<Rightarrow> Inl e
                      | Inr (ns, g') \<Rightarrow>
                          (case broadcast_to (length pqs) (map real ns) of
                             Inl e \<Rightarrow> Inl e
                           | Inr vs \<Rightarrow>
                               Inr \<lparr>img = write_back (img w) pqs vs,
                                    gen = g',
                                    interactions = interactions w @
                                      (if list_ex (\<lambda>(i, j). j = 76 \<and> i = 54) (zip ii jj)
                                       then [PdbSetTrace] else [])\<rparr>)))))"

text \<open>Lines 286 to 293: the loop over the events; an exception ends it.\<close>

fun inject_all ::
  "'g numpy \<Rightarrow> real \<Rightarrow> real \<Rightarrow> (real \<times> real \<times> real \<times> real \<times> real) list \<Rightarrow> 'g world
   \<Rightarrow> error + 'g world" where
  "inject_all R pixel_size pixel_depth [] w = Inr w"
| "inject_all R pixel_size pixel_depth (ev # evs) w =
     (case inject R pixel_size pixel_depth ev w of
        Inl e \<Rightarrow> Inl e
      | Inr w' \<Rightarrow> inject_all R pixel_size pixel_depth evs w')"

text \<open>
  An array divided by a scalar, element by element: without elements nothing is
  divided; a zero divisor gives non-finite floats.
\<close>

definition divide_each :: "real list \<Rightarrow> real \<Rightarrow> error + real list" where
  "divide_each xs d =
     (if xs \<noteq> [] \<and> d = 0 then Inl NonFinite else Inr (map (\<lambda>x. x / d) xs))"

text \<open>\<open>a.clip(lo, hi)\<close> is \<open>minimum(maximum(a, lo), hi)\<close>.\<close>

definition clip :: "real \<Rightarrow> real \<Rightarrow> real \<Rightarrow> real" where
  "clip a lo hi = min (max a lo) hi"

text \<open>
  Lines 271 to 295. \<open>sample_cr_params\<close> is called with the shape of the image
  and the generator, the other parameters at their defaults. \<open>im1 = image.copy()\<close>
  is never used. The argument \<open>image\<close> is \<open>image_in\<close> here.
\<close>

definition simulate_crs ::
  "'g numpy \<Rightarrow> image \<Rightarrow> real \<Rightarrow> real \<Rightarrow> real \<Rightarrow> real \<Rightarrow> real \<Rightarrow> real \<Rightarrow> 'g option \<Rightarrow> int
   \<Rightarrow> error + 'g world" where
  "simulate_crs R image_in time flux area gain pixel_size pixel_depth rng seed =
     (let g0 = (case rng of None \<Rightarrow> default_rng R seed | Some g \<Rightarrow> g);
          N_i = n_i image_in;
          N_j = n_j image_in
      in case poisson R (flux * area * time) g0 of
           Inl e \<Rightarrow> Inl e
         | Inr (N_samples, g1) \<Rightarrow>
             (case sample_cr_params R N_samples (real N_i) (real N_j) 10 10000 10 2000 10000
                     (Some g1) 48 of
                Inl e \<Rightarrow> Inl e
              | Inr ((cr_i0, cr_j0, cr_angle, cr_length, cr_dEdx), g2) \<Rightarrow>
                  (case divide_each cr_length pixel_size of
                     Inl e \<Rightarrow> Inl e
                   | Inr cr_length \<Rightarrow>
                       (let cr_i1 = map2 (\<lambda>i0 (l, a). clip (i0 + l * cos a) 1 (real_of_int (int N_i - 1)))
                                      cr_i0 (zip cr_length cr_angle);
                            cr_j1 = map2 (\<lambda>j0 (l, a). clip (j0 + l * sin a) 1 (real_of_int (int N_j - 1)))
                                      cr_j0 (zip cr_length cr_angle)
                        in case divide_each (map (\<lambda>e. e * pixel_size) cr_dEdx) gain of
                             Inl e \<Rightarrow> Inl e
                           | Inr cr_counts_per_pix \<Rightarrow>
                               inject_all R pixel_size pixel_depth
                                 (zip cr_i0 (zip cr_j0 (zip cr_i1 (zip cr_j1 cr_counts_per_pix))))
                                 \<lparr>img = image_in, gen = g2, interactions = []\<rparr>))))"

subsection \<open>The debugger session\<close>

text \<open>
  \<open>pdb.set_trace()\<close> stops the run at a prompt that reads commands from standard
  input, and what is typed there is no argument of \<open>simulate_crs\<close>. A session is
  what the commands do to the image before the run resumes, or the exception they
  end the run with: \<open>continue\<close> resumes it, \<open>quit\<close> and the end of the input raise
  \<open>bdb.BdbQuit\<close>, and a statement typed at the prompt runs in the frame of
  \<open>simulate_crs\<close>, where \<open>image\<close> is the buffer.

  \<open>inject\<close> has the state at the call of the debugger, the last statement of the
  iteration, and records the call; \<open>inject_pdb\<close> lets the session act there. With
  the session that only continues the three functions below are \<open>inject\<close>,
  \<open>inject_all\<close> and \<open>simulate_crs\<close>.
\<close>

type_synonym session = "image \<Rightarrow> error + image"

definition inject_pdb ::
  "session \<Rightarrow> 'g numpy \<Rightarrow> real \<Rightarrow> real \<Rightarrow> real \<times> real \<times> real \<times> real \<times> real \<Rightarrow> 'g world
   \<Rightarrow> error + 'g world" where
  "inject_pdb session R pixel_size pixel_depth ev w =
     (case inject R pixel_size pixel_depth ev w of
        Inl e \<Rightarrow> Inl e
      | Inr w' \<Rightarrow>
          if interactions w' = interactions w @ [PdbSetTrace]
          then (case session (img w') of
                  Inl e \<Rightarrow> Inl e
                | Inr im \<Rightarrow> Inr (w'\<lparr>img := im\<rparr>))
          else Inr w')"

fun inject_all_pdb ::
  "session \<Rightarrow> 'g numpy \<Rightarrow> real \<Rightarrow> real \<Rightarrow> (real \<times> real \<times> real \<times> real \<times> real) list \<Rightarrow> 'g world
   \<Rightarrow> error + 'g world" where
  "inject_all_pdb session R pixel_size pixel_depth [] w = Inr w"
| "inject_all_pdb session R pixel_size pixel_depth (ev # evs) w =
     (case inject_pdb session R pixel_size pixel_depth ev w of
        Inl e \<Rightarrow> Inl e
      | Inr w' \<Rightarrow> inject_all_pdb session R pixel_size pixel_depth evs w')"

definition simulate_crs_pdb ::
  "session \<Rightarrow> 'g numpy \<Rightarrow> image \<Rightarrow> real \<Rightarrow> real \<Rightarrow> real \<Rightarrow> real \<Rightarrow> real \<Rightarrow> real \<Rightarrow> 'g option \<Rightarrow> int
   \<Rightarrow> error + 'g world" where
  "simulate_crs_pdb session R image_in time flux area gain pixel_size pixel_depth rng seed =
     (let g0 = (case rng of None \<Rightarrow> default_rng R seed | Some g \<Rightarrow> g);
          N_i = n_i image_in;
          N_j = n_j image_in
      in case poisson R (flux * area * time) g0 of
           Inl e \<Rightarrow> Inl e
         | Inr (N_samples, g1) \<Rightarrow>
             (case sample_cr_params R N_samples (real N_i) (real N_j) 10 10000 10 2000 10000
                     (Some g1) 48 of
                Inl e \<Rightarrow> Inl e
              | Inr ((cr_i0, cr_j0, cr_angle, cr_length, cr_dEdx), g2) \<Rightarrow>
                  (case divide_each cr_length pixel_size of
                     Inl e \<Rightarrow> Inl e
                   | Inr cr_length \<Rightarrow>
                       (let cr_i1 = map2 (\<lambda>i0 (l, a). clip (i0 + l * cos a) 1 (real_of_int (int N_i - 1)))
                                      cr_i0 (zip cr_length cr_angle);
                            cr_j1 = map2 (\<lambda>j0 (l, a). clip (j0 + l * sin a) 1 (real_of_int (int N_j - 1)))
                                      cr_j0 (zip cr_length cr_angle)
                        in case divide_each (map (\<lambda>e. e * pixel_size) cr_dEdx) gain of
                             Inl e \<Rightarrow> Inl e
                           | Inr cr_counts_per_pix \<Rightarrow>
                               inject_all_pdb session R pixel_size pixel_depth
                                 (zip cr_i0 (zip cr_j0 (zip cr_i1 (zip cr_j1 cr_counts_per_pix))))
                                 \<lparr>img = image_in, gen = g2, interactions = []\<rparr>))))"

text \<open>
  Three sessions: \<open>continue\<close>; \<open>quit\<close>; and \<open>image[0, 0] = 7\<close> followed by
  \<open>continue\<close>.
\<close>

definition pdb_continue :: session where
  "pdb_continue im = Inr im"

definition pdb_quit :: session where
  "pdb_quit im = Inl BdbQuit"

definition pdb_assign :: session where
  "pdb_assign im = Inr (im\<lparr>pix := (pix im)((0, 0) := 7)\<rparr>)"

subsection \<open>What the properties are stated with\<close>

text \<open>The Euclidean distance between the two ends of a trail.\<close>

definition trail_length :: "point \<Rightarrow> point \<Rightarrow> real" where
  "trail_length a b = sqrt ((fst b - fst a)\<^sup>2 + (snd b - snd a)\<^sup>2)"

text \<open>
  \<open>traverse\<close> returns, and its lengths add up to the length of the trail within a
  relative tolerance of \<open>1e-9\<close>.
\<close>

definition conserves_length :: "point \<Rightarrow> point \<Rightarrow> real \<Rightarrow> real \<Rightarrow> bool" where
  "conserves_length a b N_i N_j =
     (case traverse a b N_i N_j of
        Inl e \<Rightarrow> False
      | Inr (ii, jj, lengths) \<Rightarrow>
          \<bar>sum_list lengths - trail_length a b\<bar> \<le> trail_length a b / 10 ^ 9)"

text \<open>The pixels of a result in the order of the arrays, and its set of triples.\<close>

definition pixels :: "error + (int list \<times> int list \<times> real list) \<Rightarrow> (int \<times> int) list" where
  "pixels r = (case r of Inl e \<Rightarrow> [] | Inr (ii, jj, lengths) \<Rightarrow> zip ii jj)"

definition triples ::
  "error + (int list \<times> int list \<times> real list) \<Rightarrow> (int \<times> int \<times> real) set" where
  "triples r =
     (case r of Inl e \<Rightarrow> {} | Inr (ii, jj, lengths) \<Rightarrow> set (zip ii (zip jj lengths)))"

text \<open>A density that is zero everywhere.\<close>

definition zero_density :: "real \<Rightarrow> real" where
  "zero_density x = 0"

text \<open>
  A generator to run the module on: its state is a list of numbers, which
  \<open>random\<close> hands out one after the other (and 0 when the list is used up); a
  Poisson draw is 0 for the mean 0 and 1 for a positive mean, and raises on a
  negative one; every sampler evaluates to 10.
\<close>

definition replay :: "(real list) numpy" where
  "replay =
     \<lparr>default_rng = (\<lambda>seed. []),
      random = (\<lambda>g. case g of [] \<Rightarrow> (0, []) | u # us \<Rightarrow> (u, us)),
      poisson = (\<lambda>lam g. if lam < 0 then Inl ValueError
                          else if lam = 0 then Inr (0, g) else Inr (1, g)),
      interp = (\<lambda>s u. Inr 10)\<rparr>"

text \<open>An image of zeros, as \<open>np.zeros((m, n))\<close>.\<close>

definition blank :: "nat \<Rightarrow> nat \<Rightarrow> image" where
  "blank m n = \<lparr>n_i = m, n_j = n, pix = (\<lambda>pq. 0)\<rparr>"

section \<open>Properties of \<open>traverse\<close>\<close>

lemma borders_1: "borders 1 = [0, 1]"
  by (simp add: borders_def numeral_2_eq_2)

lemma borders_2: "borders 2 = [0, 1, 2]"
  by (simp add: borders_def numeral_3_eq_3)

lemma borders_5_4: "borders (5 / 4) = [0, 1]"
  by (simp add: borders_def numeral_2_eq_2)

lemma borders_m5_4: "borders (- (5 / 4)) = [0, - 1]"
  by (simp add: borders_def numeral_2_eq_2)

lemma row_norm_eq: "0 \<le> r \<Longrightarrow> (fst d)\<^sup>2 + (snd d)\<^sup>2 = r\<^sup>2 \<Longrightarrow> row_norm d = r"
  by (simp add: row_norm_def)

subsection \<open>Length conservation\<close>

lemma crossings_level:
  "crossings (3 / 8, 1 / 2) (19 / 8, 1 / 2) 4096 4096 =
     [(3 / 8, 1 / 2), (11 / 8, 1 / 2), (19 / 8, 1 / 2)]"
  by (simp add: crossings_def orient_def cross_i_def cross_j_def borders_2
      argsort_rows_def np_unique_def outside_def)

lemma traverse_level:
  "traverse (3 / 8, 1 / 2) (19 / 8, 1 / 2) 4096 4096 =
     Inr ([0, 1, 2], [0, 0, 0], [1, 1, 5 / 8])"
proof -
  have n: "row_norm (3 / 8, 1 / 2) = 5 / 8"
    by (rule row_norm_eq) (simp_all add: power2_eq_square)
  have f: "frac_part (19 / 8, 1 / 2) = (3 / 8, 1 / 2)"
    by (simp add: frac_part_def)
  have n1: "row_norm (1, 0) = 1"
    by (simp add: row_norm_def)
  show ?thesis
    by (simp add: traverse_def crossings_level orient_def f isclose_def n n1)
qed

text \<open>
  C1. The claim: for a trail inside the grid the lengths returned by \<open>traverse\<close>
  add up to the distance between its ends, within \<open>1e-9\<close>. The code does not do
  that. The trail from \<open>(0.375, 0.5)\<close> to \<open>(2.375, 0.5)\<close> has length 2 and lies
  well inside the grid; \<open>traverse\<close> returns the lengths \<open>1, 1, 0.625\<close>, which add
  up to \<open>2.625\<close>: the last length is the norm of the fractional part of the last
  crossing, not the rest of the trail.
\<close>

theorem traverse_length_not_conserved:
  "traverse (3 / 8, 1 / 2) (19 / 8, 1 / 2) 4096 4096 =
     Inr ([0, 1, 2], [0, 0, 0], [1, 1, 5 / 8])
   \<and> trail_length (3 / 8, 1 / 2) (19 / 8, 1 / 2) = 2
   \<and> \<not> conserves_length (3 / 8, 1 / 2) (19 / 8, 1 / 2) 4096 4096"
  by (simp add: conserves_length_def traverse_level trail_length_def)

subsection \<open>A last crossing on a grid point\<close>

lemma crossings_grid_point:
  "crossings (1, 1) (3, 2) 4096 4096 = [(1, 1), (2, 3 / 2), (3, 2)]"
  by (simp add: crossings_def orient_def cross_i_def cross_j_def borders_2 borders_1
      argsort_rows_def np_unique_def outside_def)

lemma traverse_close_last_raises:
  assumes "1 < length (crossings a b N_i N_j)"
    and "isclose (fst (frac_part (last (crossings a b N_i N_j)))) 0"
    and "isclose (snd (frac_part (last (crossings a b N_i N_j)))) 0"
  shows "traverse a b N_i N_j = Inl UnboundLocalError"
  using assms by (simp add: traverse_def Let_def split: prod.splits)

text \<open>
  C2. The claim: when the last crossing is an integer grid point, \<open>traverse\<close>
  returns without the trailing segment. The code raises instead: for the trail from
  \<open>(1, 1)\<close> to \<open>(3, 2)\<close> the crossings are \<open>(1, 1), (2, 1.5), (3, 2)\<close>, the branch
  of line 224 is taken, \<open>lengths\<close> is never assigned, and the \<open>return\<close> raises
  \<open>UnboundLocalError\<close>.
\<close>

theorem traverse_grid_point_raises:
  "traverse (1, 1) (3, 2) 4096 4096 = Inl UnboundLocalError"
  by (simp add: traverse_def crossings_grid_point orient_def frac_part_def isclose_def)

subsection \<open>Pixels listed twice\<close>

lemma crossings_shallow:
  "crossings (1 / 2, 1 / 2) (5 / 2, 7 / 4) 4096 4096 =
     [(1 / 2, 1 / 2), (3 / 2, 9 / 8), (21 / 10, 3 / 2), (5 / 2, 7 / 4)]"
  by (simp add: crossings_def orient_def cross_i_def cross_j_def borders_2 borders_5_4
      argsort_rows_def np_unique_def outside_def)

text \<open>
  C4. The claim: no pixel appears twice in a result of \<open>traverse\<close>. The code lists
  pixel \<open>(2, 1)\<close> twice for the trail from \<open>(0.5, 0.5)\<close> to \<open>(2.5, 1.75)\<close>: the
  crossings \<open>(2.1, 1.5)\<close> and \<open>(2.5, 1.75)\<close> are distinct rows, so \<open>np.unique\<close>
  keeps both, and both have the floor \<open>(2, 1)\<close>.
\<close>

theorem traverse_pixel_twice:
  "pixels (traverse (1 / 2, 1 / 2) (5 / 2, 7 / 4) 4096 4096) = [(0, 0), (1, 1), (2, 1), (2, 1)]
   \<and> \<not> distinct (pixels (traverse (1 / 2, 1 / 2) (5 / 2, 7 / 4) 4096 4096))"
  by (simp add: traverse_def crossings_shallow orient_def frac_part_def isclose_def pixels_def)

subsection \<open>Swapping the ends\<close>

lemma crossings_up:
  "crossings (2, 1 / 2) (2, 7 / 4) 4096 4096 = [(2, 3 / 4), (2, 7 / 4)]"
  by (simp add: crossings_def orient_def cross_i_def cross_j_def borders_m5_4
      argsort_rows_def np_unique_def outside_def)

lemma crossings_down:
  "crossings (2, 7 / 4) (2, 1 / 2) 4096 4096 = [(2, 1 / 2), (2, 3 / 2)]"
  by (simp add: crossings_def orient_def cross_i_def cross_j_def borders_5_4
      argsort_rows_def np_unique_def outside_def)

lemma traverse_up:
  "traverse (2, 1 / 2) (2, 7 / 4) 4096 4096 = Inr ([2, 2], [0, 1], [1, 3 / 4])"
proof -
  have n: "row_norm (0, 3 / 4) = 3 / 4"
    by (rule row_norm_eq) (simp_all add: power2_eq_square)
  have f: "frac_part (2, 7 / 4) = (0, 3 / 4)"
    by (simp add: frac_part_def)
  have n1: "row_norm (0, 1) = 1"
    by (simp add: row_norm_def)
  show ?thesis
    by (simp add: traverse_def crossings_up orient_def f isclose_def n n1)
qed

lemma traverse_down:
  "traverse (2, 7 / 4) (2, 1 / 2) 4096 4096 = Inr ([2, 2], [0, 1], [1, 1 / 2])"
proof -
  have n: "row_norm (0, 1 / 2) = 1 / 2"
    by (rule row_norm_eq) (simp_all add: power2_eq_square)
  have f: "frac_part (2, 3 / 2) = (0, 1 / 2)"
    by (simp add: frac_part_def)
  have n1: "row_norm (0, 1) = 1"
    by (simp add: row_norm_def)
  show ?thesis
    by (simp add: traverse_def crossings_down orient_def f isclose_def n n1)
qed

text \<open>
  C5. The claim: \<open>traverse a b\<close> and \<open>traverse b a\<close> have the same set of
  triples. The code does not do that for the trail between \<open>(2, 0.5)\<close> and
  \<open>(2, 1.75)\<close>, of length 1.25 with the chords 0.5 in pixel \<open>(2, 0)\<close> and 0.75 in
  pixel \<open>(2, 1)\<close>: one order returns the lengths \<open>1, 0.75\<close>, the other \<open>1, 0.5\<close>,
  neither the chords and not the same. The crossings are laid out from the point the
  call starts from, and with equal first coordinates the test of line 177 lets each
  call start from its own \<open>trail_end\<close>.
\<close>

theorem traverse_swap_differs:
  "traverse (2, 1 / 2) (2, 7 / 4) 4096 4096 = Inr ([2, 2], [0, 1], [1, 3 / 4])
   \<and> traverse (2, 7 / 4) (2, 1 / 2) 4096 4096 = Inr ([2, 2], [0, 1], [1, 1 / 2])
   \<and> triples (traverse (2, 1 / 2) (2, 7 / 4) 4096 4096)
       \<noteq> triples (traverse (2, 7 / 4) (2, 1 / 2) 4096 4096)
   \<and> \<not> conserves_length (2, 1 / 2) (2, 7 / 4) 4096 4096
   \<and> \<not> conserves_length (2, 7 / 4) (2, 1 / 2) 4096 4096"
proof -
  have "(2, 1, 3 / 4) \<in> triples (traverse (2, 1 / 2) (2, 7 / 4) 4096 4096)"
    by (simp add: traverse_up triples_def)
  moreover have "(2, 1, 3 / 4) \<notin> triples (traverse (2, 7 / 4) (2, 1 / 2) 4096 4096)"
    by (simp add: traverse_down triples_def)
  ultimately have d: "triples (traverse (2, 1 / 2) (2, 7 / 4) 4096 4096)
       \<noteq> triples (traverse (2, 7 / 4) (2, 1 / 2) 4096 4096)"
    by metis
  have l: "trail_length (2, 1 / 2) (2, 7 / 4) = 5 / 4" "trail_length (2, 7 / 4) (2, 1 / 2) = 5 / 4"
    unfolding trail_length_def
    by (rule real_sqrt_unique, simp add: power2_eq_square, simp)+
  have u: "\<not> conserves_length (2, 1 / 2) (2, 7 / 4) 4096 4096"
    by (simp add: conserves_length_def traverse_up l)
  have v: "\<not> conserves_length (2, 7 / 4) (2, 1 / 2) 4096 4096"
    by (simp add: conserves_length_def traverse_down l)
  from traverse_up traverse_down d u v show ?thesis
    by blast
qed

section \<open>Properties of \<open>create_sampler\<close>\<close>

lemma cumsum_from_zeros: "cumsum_from 0 (replicate n 0) = replicate n 0"
  by (induction n) simp_all

lemma funpow_max_zero: "(max (0::real) ^^ n) 0 = 0"
  by (induction n) simp_all

lemma map_zero: "\<forall>v \<in> set x. pdf v = (0::real) \<Longrightarrow> map pdf x = replicate (length x) 0"
  by (induction x) simp_all

lemma sort_key_const: "\<forall>p \<in> set ps. f p = k \<Longrightarrow> sort_key f ps = ps"
proof (induction ps)
  case Nil
  then show ?case by simp
next
  case (Cons p ps)
  then have "sort_key f ps = ps" by simp
  with Cons.prems show ?case by (cases ps) simp_all
qed

lemma length_cumsum_from: "length (cumsum_from a ys) = length ys"
  by (induction ys arbitrary: a) simp_all

lemma create_sampler_returns: "x \<noteq> [] \<Longrightarrow> \<exists>s. create_sampler pdf x = Inr s"
  by (cases x)
    (simp_all add: create_sampler_def Let_def interp1d_def np_cumsum_def length_cumsum_from)

text \<open>
  C3, as claimed: on a density that is zero on the whole grid, \<open>create_sampler\<close>
  fails with \<open>DegenerateDistributionError\<close>. The module has no such exception and
  \<open>create_sampler\<close> no \<open>raise\<close>: on the grid \<open>[10, 20]\<close> it returns a sampler, whose
  knots are the two \<open>nan\<close> of \<open>0 / 0\<close>.
\<close>

theorem create_sampler_zero_density_returns:
  "create_sampler zero_density [10, 20] = Inr \<lparr>knots = [NaN, NaN], ordinates = [10, 20]\<rparr>"
  by (simp add: create_sampler_def zero_density_def np_cumsum_def np_divide_def interp1d_def)

text \<open>
  C3, amended: for every density that is zero at every point of a grid that is not
  empty, \<open>create_sampler\<close> raises nothing and returns a sampler whose knots are all
  \<open>nan\<close>, over the grid as it was given.
\<close>

theorem create_sampler_zero:
  assumes "x \<noteq> []" and "\<forall>v \<in> set x. pdf v = 0"
  shows "create_sampler pdf x = Inr \<lparr>knots = replicate (length x) NaN, ordinates = x\<rparr>"
proof -
  obtain v vs where x: "x = v # vs"
    using assms(1) by (cases x) auto
  have y: "map pdf x = replicate (length x) 0"
    using assms(2) by (rule map_zero)
  have c: "map (\<lambda>c. c - 0) (np_cumsum (replicate (length x) 0)) = replicate (length x) 0"
    by (simp add: np_cumsum_def cumsum_from_zeros)
  have s: "sort_key (\<lambda>p. sort_rank (fst p)) (zip (replicate (length x) NaN) x)
           = zip (replicate (length x) NaN) x"
    by (rule sort_key_const [where k = "(3, 0)"]) (auto dest: set_zip_leftD)
  have i: "interp1d (replicate (length x) NaN) x
           = Inr \<lparr>knots = replicate (length x) NaN, ordinates = x\<rparr>"
    using assms(1) unfolding interp1d_def Let_def s
    by (simp add: map_fst_zip map_snd_zip)
  show ?thesis
    unfolding create_sampler_def Let_def y
    using c i x by (simp add: funpow_max_zero np_divide_def)
qed

theorem create_sampler_zero_witness:
  "[1, 2, 3] \<noteq> ([] :: real list)
   \<and> zero_density 1 = 0 \<and> zero_density 2 = 0 \<and> zero_density 3 = 0
   \<and> create_sampler zero_density [1, 2, 3] = Inr \<lparr>knots = [NaN, NaN, NaN], ordinates = [1, 2, 3]\<rparr>"
  using create_sampler_zero [of "[1, 2, 3]" zero_density] by (simp add: zero_density_def)

section \<open>Properties of \<open>simulate_crs\<close>\<close>

subsection \<open>What one statement \<open>image[ii, jj] += values\<close> changes\<close>

lemma fold_upd_other:
  "x \<notin> fst ` set kvs \<Longrightarrow> fold (\<lambda>(k, v) f. f(k := v)) kvs f x = f x"
  by (induction kvs arbitrary: f) (auto split: prod.splits)

lemma fold_upd_ge:
  "\<forall>(k, v) \<in> set kvs. g k \<le> v \<Longrightarrow> g x \<le> f x
   \<Longrightarrow> (g x :: real) \<le> fold (\<lambda>(k, v) f. f(k := v)) kvs f x"
  by (induction kvs arbitrary: f) (auto split: prod.splits)

lemma zip_map2_elem:
  "(k, w) \<in> set (zip ks (map2 h ks vs)) \<Longrightarrow> \<exists>v \<in> set vs. w = h k v"
proof (induction ks arbitrary: vs)
  case Nil
  then show ?case by simp
next
  case (Cons a ks)
  then show ?case by (cases vs) auto
qed

lemma write_back_shape:
  "n_i (write_back im pqs vs) = n_i im \<and> n_j (write_back im pqs vs) = n_j im"
  by (simp add: write_back_def)

lemma write_back_other: "pq \<notin> set pqs \<Longrightarrow> pix (write_back im pqs vs) pq = pix im pq"
proof -
  assume a: "pq \<notin> set pqs"
  have "pq \<notin> fst ` set (zip pqs (map2 (\<lambda>pq v. pix im pq + v) pqs vs))"
    using a by (auto dest: set_zip_leftD)
  then show ?thesis
    by (simp add: write_back_def fold_upd_other)
qed

lemma write_back_ge:
  assumes "\<forall>v \<in> set vs. 0 \<le> v"
  shows "pix im pq \<le> pix (write_back im pqs vs) pq"
proof -
  have "\<forall>(k, w) \<in> set (zip pqs (map2 (\<lambda>pq v. pix im pq + v) pqs vs)). pix im k \<le> w"
  proof (clarify)
    fix k w
    assume "(k, w) \<in> set (zip pqs (map2 (\<lambda>pq v. pix im pq + v) pqs vs))"
    then obtain v where "v \<in> set vs" "w = pix im k + v"
      using zip_map2_elem by fastforce
    with assms show "pix im k \<le> w" by simp
  qed
  then show ?thesis
    by (simp add: write_back_def fold_upd_ge)
qed

lemma broadcast_nonneg:
  "broadcast_to n vs = Inr vs' \<Longrightarrow> \<forall>v \<in> set vs. (0::real) \<le> v \<Longrightarrow> \<forall>v \<in> set vs'. 0 \<le> v"
  by (cases vs) (auto simp: broadcast_to_def split: if_splits)

subsection \<open>The loop\<close>

lemma inject_ge:
  assumes "inject R pixel_size pixel_depth ev w = Inr w'"
  shows "pix (img w) pq \<le> pix (img w') pq
         \<and> n_i (img w') = n_i (img w) \<and> n_j (img w') = n_j (img w)"
proof -
  obtain i0 j0 i1 j1 c where ev: "ev = (i0, j0, i1, j1, c)"
    by (cases ev) auto
  from assms obtain pqs ns vs where
    b: "broadcast_to (length pqs) (map real ns) = Inr vs" and
    w': "img w' = write_back (img w) pqs vs"
    unfolding inject_def ev
    by (auto simp: Let_def split: sum.splits prod.splits if_splits)
  have "\<forall>v \<in> set vs. 0 \<le> v"
    using broadcast_nonneg [OF b] by simp
  then show ?thesis
    unfolding w' by (simp add: write_back_ge write_back_shape)
qed

lemma inject_all_ge:
  "inject_all R pixel_size pixel_depth evs w = Inr w'
   \<Longrightarrow> pix (img w) pq \<le> pix (img w') pq
       \<and> n_i (img w') = n_i (img w) \<and> n_j (img w') = n_j (img w)"
proof (induction evs arbitrary: w)
  case Nil
  then show ?case by simp
next
  case (Cons ev evs)
  from Cons.prems obtain w1 where
    s: "inject R pixel_size pixel_depth ev w = Inr w1" and
    r: "inject_all R pixel_size pixel_depth evs w1 = Inr w'"
    by (auto split: sum.splits)
  from inject_ge [OF s, of pq] Cons.IH [OF r] show ?case by force
qed

lemma simulate_crs_loop:
  assumes "simulate_crs R image_in time flux area gain pixel_size pixel_depth rng seed = Inr w"
  shows "\<exists>evs g. inject_all R pixel_size pixel_depth evs
           \<lparr>img = image_in, gen = g, interactions = []\<rparr> = Inr w"
  using assms unfolding simulate_crs_def
  by (auto simp: Let_def split: sum.splits prod.splits)

subsection \<open>Pixels beyond the default bounds\<close>

lemma crossings_inside:
  "c \<in> set (crossings a b N_i N_j)
   \<Longrightarrow> 0 \<le> fst c \<and> fst c \<le> N_i \<and> 0 \<le> snd c \<and> snd c \<le> N_j"
  by (auto simp: crossings_def outside_def Let_def split: prod.splits)

lemma zip_map_same: "zip (map f xs) (map g xs) = map (\<lambda>x. (f x, g x)) xs"
  by (induction xs) simp_all

lemma traverse_pixels_bounded:
  assumes "traverse a b 4096 4096 = Inr (ii, jj, ls)" and "(i, j) \<in> set (zip ii jj)"
  shows "0 \<le> i \<and> i \<le> 4096 \<and> 0 \<le> j \<and> j \<le> 4096"
proof -
  from assms(1) have ii: "ii = map (\<lambda>c. \<lfloor>fst c\<rfloor>) (crossings a b 4096 4096)"
    and jj: "jj = map (\<lambda>c. \<lfloor>snd c\<rfloor>) (crossings a b 4096 4096)"
    by (auto simp: traverse_def Let_def split: prod.splits if_splits)
  from assms(2) obtain c where c: "c \<in> set (crossings a b 4096 4096)"
    and i: "i = \<lfloor>fst c\<rfloor>" and j: "j = \<lfloor>snd c\<rfloor>"
    unfolding ii jj zip_map_same by auto
  from crossings_inside [OF c]
  have "0 \<le> fst c" "fst c \<le> 4096" "0 \<le> snd c" "snd c \<le> 4096"
    by auto
  then show ?thesis
    unfolding i j by (simp add: floor_le_iff le_floor_iff)
qed

lemma np_index_nonneg: "np_index n i = Inr p \<Longrightarrow> 0 \<le> i \<Longrightarrow> p = nat i"
  by (auto simp: np_index_def split: if_splits)

lemma index_each_elem:
  "index_each im ijs = Inr pqs \<Longrightarrow> (p, q) \<in> set pqs
   \<Longrightarrow> \<exists>(i, j) \<in> set ijs. np_index (n_i im) i = Inr p \<and> np_index (n_j im) j = Inr q"
proof (induction ijs arbitrary: pqs)
  case Nil
  then show ?case by simp
next
  case (Cons ij ijs)
  obtain i j where ij: "ij = (i, j)"
    by (cases ij) auto
  from Cons.prems(1) obtain p' q' pqs' where
    a: "np_index (n_i im) i = Inr p'" "np_index (n_j im) j = Inr q'" and
    r: "index_each im ijs = Inr pqs'" and e: "pqs = (p', q') # pqs'"
    unfolding ij by (auto split: sum.splits)
  show ?case
  proof (cases "(p, q) = (p', q')")
    case True
    with a show ?thesis unfolding ij by auto
  next
    case False
    with Cons.prems(2) e have "(p, q) \<in> set pqs'" by auto
    from Cons.IH [OF r this] show ?thesis by auto
  qed
qed

lemma inject_beyond:
  assumes "inject R pixel_size pixel_depth ev w = Inr w'" and "4096 < p \<or> 4096 < q"
  shows "pix (img w') (p, q) = pix (img w) (p, q)"
proof -
  obtain i0 j0 i1 j1 c where ev: "ev = (i0, j0, i1, j1, c)"
    by (cases ev) auto
  from assms(1) obtain ii jj ls pqs vs where
    t: "traverse (i0, j0) (i1, j1) 4096 4096 = Inr (ii, jj, ls)" and
    x: "index_each (img w) (zip ii jj) = Inr pqs" and
    w': "img w' = write_back (img w) pqs vs"
    unfolding inject_def ev
    by (auto simp: Let_def split: sum.splits prod.splits if_splits)
  have "(p, q) \<notin> set pqs"
  proof
    assume "(p, q) \<in> set pqs"
    from index_each_elem [OF x this] obtain i j where
      m: "(i, j) \<in> set (zip ii jj)" and
      pi: "np_index (n_i (img w)) i = Inr p" and qj: "np_index (n_j (img w)) j = Inr q"
      by auto
    from traverse_pixels_bounded [OF t m]
    have b: "0 \<le> i" "i \<le> 4096" "0 \<le> j" "j \<le> 4096"
      by auto
    from np_index_nonneg [OF pi b(1)] np_index_nonneg [OF qj b(3)] b assms(2)
    show False by auto
  qed
  then show ?thesis
    unfolding w' by (rule write_back_other)
qed

lemma inject_all_beyond:
  "inject_all R pixel_size pixel_depth evs w = Inr w' \<Longrightarrow> 4096 < p \<or> 4096 < q
   \<Longrightarrow> pix (img w') (p, q) = pix (img w) (p, q)"
proof (induction evs arbitrary: w)
  case Nil
  then show ?case by simp
next
  case (Cons ev evs)
  from Cons.prems(1) obtain w1 where
    s: "inject R pixel_size pixel_depth ev w = Inr w1" and
    r: "inject_all R pixel_size pixel_depth evs w1 = Inr w'"
    by (auto split: sum.splits)
  from inject_beyond [OF s Cons.prems(2)] Cons.IH [OF r Cons.prems(2)]
  show ?case by simp
qed

subsection \<open>No events\<close>

lemma linspace_nonempty: "0 < n \<Longrightarrow> linspace a b n \<noteq> []"
  by (simp add: linspace_def)

lemma sample_cr_params_none:
  assumes "0 < grid_size"
  shows "sample_cr_params R 0 N_i N_j min_dEdx max_dEdx min_cr_len max_cr_len grid_size
           (Some g) seed
         = Inr (([], [], [], [], []), g)"
proof -
  obtain s1 where s1: "create_sampler (\<lambda>x. power_law_distribution x (- 433 / 100))
      (linspace min_cr_len max_cr_len grid_size) = Inr s1"
    using create_sampler_returns [OF linspace_nonempty [OF assms]] by blast
  obtain s2 where s2: "create_sampler (\<lambda>x. moyal_distribution x 1000 300)
      (linspace min_dEdx max_dEdx grid_size) = Inr s2"
    using create_sampler_returns [OF linspace_nonempty [OF assms]] by blast
  show ?thesis
    unfolding sample_cr_params_def Let_def s1 s2 by simp
qed

subsection \<open>Two runs on the replaying generator\<close>

lemma replay_random: "random replay (u # us) = (u, us)"
  by (simp add: replay_def)

lemma replay_poisson: "0 < lam \<Longrightarrow> poisson replay lam g = Inr (1, g)"
  by (simp add: replay_def)

lemma replay_interp: "interp replay s u = Inr 10"
  by (simp add: replay_def)

lemma replay_draws: "n \<le> length g \<Longrightarrow> draws replay n g = (take n g, drop n g)"
proof (induction n arbitrary: g)
  case 0
  then show ?case by simp
next
  case (Suc n)
  then obtain u us where g: "g = u # us"
    by (cases g) auto
  with Suc show ?case by (simp add: replay_random)
qed

lemma replay_poisson_each:
  "\<forall>l \<in> set ls. 0 < l \<Longrightarrow> poisson_each replay ls g = Inr (replicate (length ls) 1, g)"
  by (induction ls) (simp_all add: replay_poisson)

lemma blank_shape: "n_i (blank m n) = m" "n_j (blank m n) = n"
  by (simp_all add: blank_def)

lemma sample_one:
  "sample_cr_params replay 1 N_i N_j 10 10000 10 2000 10000 (Some [u1, u2, u3, u4, u5]) 48
     = Inr (([u1 * N_i], [u2 * N_j], [u3 * 2 * pi], [10], [10]), [])"
proof -
  obtain s1 where s1: "create_sampler (\<lambda>x. power_law_distribution x (- 433 / 100))
      (linspace 10 2000 10000) = Inr s1"
    using create_sampler_returns [OF linspace_nonempty] by (metis zero_less_numeral)
  obtain s2 where s2: "create_sampler (\<lambda>x. moyal_distribution x 1000 300)
      (linspace 10 10000 10000) = Inr s2"
    using create_sampler_returns [OF linspace_nonempty] by (metis zero_less_numeral)
  show ?thesis
    unfolding sample_cr_params_def Let_def s1 s2
    by (simp add: replay_draws replay_interp del: draws.simps)
qed

text \<open>
  A 100 by 100 image and one event, from \<open>(54.5, 76.5)\<close> along the first axis
  over the length of one pixel.
\<close>

lemma crossings_hit:
  "crossings (109 / 2, 153 / 2) (111 / 2, 153 / 2) 4096 4096
     = [(109 / 2, 153 / 2), (111 / 2, 153 / 2)]"
  by (simp add: crossings_def orient_def cross_i_def cross_j_def borders_1
      argsort_rows_def np_unique_def outside_def)

lemma traverse_hit:
  "traverse (109 / 2, 153 / 2) (111 / 2, 153 / 2) 4096 4096
     = Inr ([54, 55], [76, 76], [1, sqrt (1 / 2)])"
proof -
  have f: "frac_part (111 / 2, 153 / 2) = (1 / 2, 1 / 2)"
    by (simp add: frac_part_def)
  have n1: "row_norm (1, 0) = 1"
    by (simp add: row_norm_def)
  have n2: "row_norm (1 / 2, 1 / 2) = sqrt (1 / 2)"
    by (simp add: row_norm_def power2_eq_square)
  show ?thesis
    by (simp add: traverse_def crossings_hit orient_def f isclose_def n1 n2)
qed

lemma inject_hit:
  assumes "0 < c"
  shows "inject replay 10 5 (109 / 2, 153 / 2, 111 / 2, 153 / 2, c)
           \<lparr>img = blank 100 100, gen = [], interactions = []\<rparr>
         = Inr \<lparr>img = \<lparr>n_i = 100, n_j = 100,
                       pix = (\<lambda>pq. 0)((54, 76) := 1, (55, 76) := 1)\<rparr>,
                gen = [], interactions = [PdbSetTrace]\<rparr>"
proof -
  have x: "index_each (blank 100 100) [(54, 76), (55, 76)] = Inr [(54, 76), (55, 76)]"
    by (simp add: blank_def np_index_def)
  have wb: "write_back (blank 100 100) [(54, 76), (55, 76)] [1, 1]
      = \<lparr>n_i = 100, n_j = 100, pix = (\<lambda>pq. 0)((54, 76) := 1, (55, 76) := 1)\<rparr>"
    by (simp add: write_back_def blank_def)
  show ?thesis
    unfolding inject_def using assms
    by (simp add: traverse_hit Let_def x replay_poisson_each broadcast_to_def wb
        power2_eq_square del: index_each.simps poisson_each.simps)
qed

lemma run_hit:
  "simulate_crs replay (blank 100 100) 1 8 (168 / 1000) (38 / 10) 10 5
      (Some [109 / 200, 153 / 200, 0, 0, 0]) 47
   = Inr \<lparr>img = \<lparr>n_i = 100, n_j = 100,
                 pix = (\<lambda>pq. 0)((54, 76) := 1, (55, 76) := 1)\<rparr>,
          gen = [], interactions = [PdbSetTrace]\<rparr>"
proof -
  have n: "poisson replay (8 * (168 / 1000) * 1) [109 / 200, 153 / 200, 0, 0, 0]
       = Inr (1, [109 / 200, 153 / 200, 0, 0, 0])"
    by (rule replay_poisson) simp
  have s: "sample_cr_params replay 1 (real (n_i (blank 100 100))) (real (n_j (blank 100 100)))
       10 10000 10 2000 10000 (Some [109 / 200, 153 / 200, 0, 0, 0]) 48
     = Inr (([109 / 2], [153 / 2], [0], [10], [10]), [])"
    using sample_one [of 100 100 "109 / 200" "153 / 200" 0 0 0] by (simp add: blank_def)
  have i: "inject replay 10 5 (109 / 2, 153 / 2, 111 / 2, 153 / 2, 10 * 10 / (38 / 10))
      \<lparr>img = blank 100 100, gen = [], interactions = []\<rparr>
   = Inr \<lparr>img = \<lparr>n_i = 100, n_j = 100,
                 pix = (\<lambda>pq. 0)((54, 76) := 1, (55, 76) := 1)\<rparr>,
          gen = [], interactions = [PdbSetTrace]\<rparr>"
    by (rule inject_hit) simp
  show ?thesis
    unfolding simulate_crs_def Let_def option.case n sum.case prod.case s
    using i by (simp add: divide_each_def clip_def blank_shape)
qed

lemma inject_pdb_continue:
  "inject_pdb pdb_continue R pixel_size pixel_depth ev w = inject R pixel_size pixel_depth ev w"
  by (simp add: inject_pdb_def pdb_continue_def split: sum.splits)

lemma inject_all_pdb_continue:
  "inject_all_pdb pdb_continue R pixel_size pixel_depth evs w
     = inject_all R pixel_size pixel_depth evs w"
  by (induction evs arbitrary: w) (simp_all add: inject_pdb_continue split: sum.splits)

lemma simulate_crs_pdb_continue:
  "simulate_crs_pdb pdb_continue R image_in time flux area gain pixel_size pixel_depth rng seed
     = simulate_crs R image_in time flux area gain pixel_size pixel_depth rng seed"
  unfolding simulate_crs_pdb_def simulate_crs_def inject_all_pdb_continue
  by (rule refl)

lemma inject_pdb_hit:
  assumes "0 < c"
  shows "inject_pdb session replay 10 5 (109 / 2, 153 / 2, 111 / 2, 153 / 2, c)
           \<lparr>img = blank 100 100, gen = [], interactions = []\<rparr>
         = (case session \<lparr>n_i = 100, n_j = 100,
                           pix = (\<lambda>pq. 0)((54, 76) := 1, (55, 76) := 1)\<rparr> of
              Inl e \<Rightarrow> Inl e
            | Inr im \<Rightarrow> Inr \<lparr>img = im, gen = [], interactions = [PdbSetTrace]\<rparr>)"
  by (simp add: inject_pdb_def inject_hit [OF assms] split: sum.splits)

lemma run_pdb_hit:
  "simulate_crs_pdb session replay (blank 100 100) 1 8 (168 / 1000) (38 / 10) 10 5
      (Some [109 / 200, 153 / 200, 0, 0, 0]) 47
   = (case session \<lparr>n_i = 100, n_j = 100,
                     pix = (\<lambda>pq. 0)((54, 76) := 1, (55, 76) := 1)\<rparr> of
        Inl e \<Rightarrow> Inl e
      | Inr im \<Rightarrow> Inr \<lparr>img = im, gen = [], interactions = [PdbSetTrace]\<rparr>)"
proof -
  have n: "poisson replay (8 * (168 / 1000) * 1) [109 / 200, 153 / 200, 0, 0, 0]
       = Inr (1, [109 / 200, 153 / 200, 0, 0, 0])"
    by (rule replay_poisson) simp
  have s: "sample_cr_params replay 1 (real (n_i (blank 100 100))) (real (n_j (blank 100 100)))
       10 10000 10 2000 10000 (Some [109 / 200, 153 / 200, 0, 0, 0]) 48
     = Inr (([109 / 2], [153 / 2], [0], [10], [10]), [])"
    using sample_one [of 100 100 "109 / 200" "153 / 200" 0 0 0] by (simp add: blank_def)
  have i: "inject_pdb session replay 10 5
      (109 / 2, 153 / 2, 111 / 2, 153 / 2, 10 * 10 / (38 / 10))
      \<lparr>img = blank 100 100, gen = [], interactions = []\<rparr>
   = (case session \<lparr>n_i = 100, n_j = 100,
                     pix = (\<lambda>pq. 0)((54, 76) := 1, (55, 76) := 1)\<rparr> of
        Inl e \<Rightarrow> Inl e
      | Inr im \<Rightarrow> Inr \<lparr>img = im, gen = [], interactions = [PdbSetTrace]\<rparr>)"
    by (rule inject_pdb_hit) simp
  show ?thesis
    unfolding simulate_crs_pdb_def Let_def option.case n sum.case prod.case s
    using i by (simp add: divide_each_def clip_def blank_shape split: sum.splits)
qed

text \<open>
  A 5000 by 5000 image and one event, from \<open>(4500, 4500)\<close> along the first axis
  over the length of one pixel: inside the image, beyond 4096.
\<close>

lemma crossings_far:
  "crossings (4500, 4500) (4501, 4500) 4096 4096 = []"
  by (simp add: crossings_def orient_def cross_i_def cross_j_def borders_1
      argsort_rows_def np_unique_def outside_def)

lemma traverse_far:
  "traverse (4500, 4500) (4501, 4500) 4096 4096 = Inr ([], [], [1])"
  by (simp add: traverse_def crossings_far orient_def)

lemma inject_far:
  assumes "0 < c"
  shows "inject replay 10 5 (4500, 4500, 4501, 4500, c)
           \<lparr>img = blank 5000 5000, gen = [], interactions = []\<rparr>
         = Inr \<lparr>img = blank 5000 5000, gen = [], interactions = []\<rparr>"
proof -
  have wb: "write_back (blank 5000 5000) [] [] = blank 5000 5000"
    by (simp add: write_back_def)
  show ?thesis
    unfolding inject_def using assms
    by (simp add: traverse_far Let_def replay_poisson_each broadcast_to_def wb
        power2_eq_square del: poisson_each.simps)
qed

lemma run_far:
  "simulate_crs replay (blank 5000 5000) 1 8 (168 / 1000) (38 / 10) 10 5
      (Some [9 / 10, 9 / 10, 0, 0, 0]) 47
   = Inr \<lparr>img = blank 5000 5000, gen = [], interactions = []\<rparr>"
proof -
  have n: "poisson replay (8 * (168 / 1000) * 1) [9 / 10, 9 / 10, 0, 0, 0]
       = Inr (1, [9 / 10, 9 / 10, 0, 0, 0])"
    by (rule replay_poisson) simp
  have s: "sample_cr_params replay 1 (real (n_i (blank 5000 5000))) (real (n_j (blank 5000 5000)))
       10 10000 10 2000 10000 (Some [9 / 10, 9 / 10, 0, 0, 0]) 48
     = Inr (([4500], [4500], [0], [10], [10]), [])"
    using sample_one [of 5000 5000 "9 / 10" "9 / 10" 0 0 0] by (simp add: blank_def)
  have i: "inject replay 10 5 (4500, 4500, 4501, 4500, 10 * 10 / (38 / 10))
      \<lparr>img = blank 5000 5000, gen = [], interactions = []\<rparr>
   = Inr \<lparr>img = blank 5000 5000, gen = [], interactions = []\<rparr>"
    by (rule inject_far) simp
  show ?thesis
    unfolding simulate_crs_def Let_def option.case n sum.case prod.case s
    using i by (simp add: divide_each_def clip_def blank_shape)
qed

subsection \<open>The claims\<close>

text \<open>
  C6. The claim: besides the image and the generator, \<open>simulate_crs\<close> touches
  nothing outside, whatever pixels a trail traverses. The code calls the debugger
  (\<open>pdb.set_trace()\<close>, lines 291 to 293) after every event whose trail has the
  pixel \<open>(54, 76)\<close>: on a 100 by 100 image, a run with one event starting at
  \<open>(54.5, 76.5)\<close> ends with that call on its record.
\<close>

theorem simulate_crs_calls_debugger:
  "map_sum id interactions
     (simulate_crs replay (blank 100 100) 1 8 (168 / 1000) (38 / 10) 10 5
        (Some [109 / 200, 153 / 200, 0, 0, 0]) 47)
   = Inr [PdbSetTrace]"
  unfolding run_hit by simp

text \<open>
  C7. The claim: two runs with the same seed, the same parameters and equal images
  end with the same image. The code hands the run to the debugger after an event
  whose trail has pixel \<open>(54, 76)\<close>, and from there the session decides: the run of
  C6, on the same generator, the same arguments and the same image, returns the
  image when the session continues, raises \<open>BdbQuit\<close> when it quits, and returns
  another image when a pixel is assigned at the prompt.
\<close>

theorem simulate_crs_session_decides:
  "simulate_crs_pdb pdb_continue replay (blank 100 100) 1 8 (168 / 1000) (38 / 10) 10 5
      (Some [109 / 200, 153 / 200, 0, 0, 0]) 47
     = Inr \<lparr>img = \<lparr>n_i = 100, n_j = 100,
                   pix = (\<lambda>pq. 0)((54, 76) := 1, (55, 76) := 1)\<rparr>,
            gen = [], interactions = [PdbSetTrace]\<rparr>
   \<and> simulate_crs_pdb pdb_quit replay (blank 100 100) 1 8 (168 / 1000) (38 / 10) 10 5
      (Some [109 / 200, 153 / 200, 0, 0, 0]) 47
     = Inl BdbQuit
   \<and> simulate_crs_pdb pdb_assign replay (blank 100 100) 1 8 (168 / 1000) (38 / 10) 10 5
      (Some [109 / 200, 153 / 200, 0, 0, 0]) 47
     = Inr \<lparr>img = \<lparr>n_i = 100, n_j = 100,
                   pix = (\<lambda>pq. 0)((54, 76) := 1, (55, 76) := 1, (0, 0) := 7)\<rparr>,
            gen = [], interactions = [PdbSetTrace]\<rparr>
   \<and> simulate_crs_pdb pdb_continue replay (blank 100 100) 1 8 (168 / 1000) (38 / 10) 10 5
        (Some [109 / 200, 153 / 200, 0, 0, 0]) 47
     \<noteq> simulate_crs_pdb pdb_assign replay (blank 100 100) 1 8 (168 / 1000) (38 / 10) 10 5
        (Some [109 / 200, 153 / 200, 0, 0, 0]) 47"
proof -
  have "((\<lambda>pq. 0 :: real)((54, 76) := 1, (55, 76) := 1)) (0 :: nat, 0 :: nat)
        \<noteq> ((\<lambda>pq. 0)((54, 76) := 1, (55, 76) := 1, (0, 0) := 7)) (0, 0)"
    by simp
  then have "(\<lambda>pq. 0 :: real)((54 :: nat, 76 :: nat) := 1, (55, 76) := 1)
        \<noteq> (\<lambda>pq. 0)((54, 76) := 1, (55, 76) := 1, (0, 0) := 7)"
    by metis
  then show ?thesis
    unfolding run_pdb_hit by (simp add: pdb_continue_def pdb_quit_def pdb_assign_def)
qed

text \<open>
  C8. When \<open>simulate_crs\<close> returns on an image without negative pixels, the image
  has its shape, every pixel is at least what it was, and none is negative.
\<close>

theorem simulate_crs_never_decreases:
  assumes "simulate_crs R image_in time flux area gain pixel_size pixel_depth rng seed = Inr w"
    and "\<forall>p q. p < n_i image_in \<and> q < n_j image_in \<longrightarrow> 0 \<le> pix image_in (p, q)"
    and "p < n_i image_in" and "q < n_j image_in"
  shows "n_i (img w) = n_i image_in \<and> n_j (img w) = n_j image_in
         \<and> pix image_in (p, q) \<le> pix (img w) (p, q) \<and> 0 \<le> pix (img w) (p, q)"
proof -
  from simulate_crs_loop [OF assms(1)] obtain evs g where
    l: "inject_all R pixel_size pixel_depth evs
          \<lparr>img = image_in, gen = g, interactions = []\<rparr> = Inr w"
    by blast
  from inject_all_ge [OF l, of "(p, q)"]
  have ge: "pix image_in (p, q) \<le> pix (img w) (p, q)"
    and sh: "n_i (img w) = n_i image_in" "n_j (img w) = n_j image_in"
    by simp_all
  from assms(2-4) have "0 \<le> pix image_in (p, q)"
    by blast
  with ge sh show ?thesis
    by simp
qed

theorem simulate_crs_never_decreases_witness:
  "simulate_crs replay (blank 100 100) 1 8 (168 / 1000) (38 / 10) 10 5
      (Some [109 / 200, 153 / 200, 0, 0, 0]) 47
     = Inr \<lparr>img = \<lparr>n_i = 100, n_j = 100,
                   pix = (\<lambda>pq. 0)((54, 76) := 1, (55, 76) := 1)\<rparr>,
            gen = [], interactions = [PdbSetTrace]\<rparr>
   \<and> (54::nat) < n_i (blank 100 100) \<and> (76::nat) < n_j (blank 100 100)
   \<and> pix (blank 100 100) (54, 76)
       \<le> pix \<lparr>n_i = 100, n_j = 100, pix = (\<lambda>pq. 0)((54, 76) := 1, (55, 76) := 1)\<rparr> (54, 76)
   \<and> 0 \<le> pix \<lparr>n_i = 100, n_j = 100, pix = (\<lambda>pq. 0)((54, 76) := 1, (55, 76) := 1)\<rparr> (54, 76)"
proof -
  have h: "\<forall>p q. p < n_i (blank 100 100) \<and> q < n_j (blank 100 100)
            \<longrightarrow> 0 \<le> pix (blank 100 100) (p, q)"
    by (simp add: blank_def)
  have a: "(54::nat) < n_i (blank 100 100)" and b: "(76::nat) < n_j (blank 100 100)"
    by (simp_all add: blank_def)
  from simulate_crs_never_decreases [OF run_hit h a b] run_hit a b
  show ?thesis
    by simp
qed

text \<open>
  C9. With \<open>flux = 0\<close> the mean of the event count is 0; on a generator whose
  Poisson draw with mean 0 is 0, \<open>simulate_crs\<close> returns the image as it was, with
  no interaction, for every image and every value of the other arguments.
\<close>

theorem simulate_crs_flux_zero:
  assumes "\<forall>g. \<exists>g'. poisson R 0 g = Inr (0, g')"
  shows "\<exists>g'. simulate_crs R image_in time 0 area gain pixel_size pixel_depth rng seed
           = Inr \<lparr>img = image_in, gen = g', interactions = []\<rparr>"
proof -
  define g0 where "g0 = (case rng of None \<Rightarrow> default_rng R seed | Some g \<Rightarrow> g)"
  from assms obtain g1 where p: "poisson R 0 g0 = Inr (0, g1)"
    by blast
  have "simulate_crs R image_in time 0 area gain pixel_size pixel_depth rng seed
           = Inr \<lparr>img = image_in, gen = g1, interactions = []\<rparr>"
    unfolding simulate_crs_def Let_def g0_def [symmetric]
    by (simp add: p sample_cr_params_none divide_each_def)
  then show ?thesis
    by blast
qed

theorem simulate_crs_flux_zero_witness:
  "(\<forall>g. \<exists>g'. poisson replay 0 g = Inr (0, g'))
   \<and> (\<exists>g'. simulate_crs replay (blank 100 100) 1 0 (168 / 1000) (38 / 10) 10 5 None 47
           = Inr \<lparr>img = blank 100 100, gen = g', interactions = []\<rparr>)"
proof -
  have h: "\<forall>g. \<exists>g'. poisson replay 0 g = Inr (0, g')"
    by (simp add: replay_def)
  from simulate_crs_flux_zero [OF h, of "blank 100 100" 1 "168 / 1000" "38 / 10" 10 5 None 47] h
  show ?thesis
    by blast
qed

text \<open>
  C10. \<open>simulate_crs\<close> calls \<open>traverse\<close> with its default bounds 4096 whatever the
  shape of the image, and \<open>traverse\<close> drops every crossing with a coordinate above
  4096: a run leaves every pixel with an index above 4096 as it was, also in an
  image that is larger.
\<close>

theorem simulate_crs_beyond_4096:
  assumes "simulate_crs R image_in time flux area gain pixel_size pixel_depth rng seed = Inr w"
    and "4096 < p \<or> 4096 < q"
  shows "pix (img w) (p, q) = pix image_in (p, q)"
proof -
  from simulate_crs_loop [OF assms(1)] obtain evs g where
    l: "inject_all R pixel_size pixel_depth evs
          \<lparr>img = image_in, gen = g, interactions = []\<rparr> = Inr w"
    by blast
  from inject_all_beyond [OF l assms(2)] show ?thesis
    by simp
qed

theorem simulate_crs_beyond_4096_witness:
  "simulate_crs replay (blank 5000 5000) 1 8 (168 / 1000) (38 / 10) 10 5
      (Some [9 / 10, 9 / 10, 0, 0, 0]) 47
     = Inr \<lparr>img = blank 5000 5000, gen = [], interactions = []\<rparr>
   \<and> ((4096::nat) < 4500 \<or> (4096::nat) < 4500)
   \<and> pix (img \<lparr>img = blank 5000 5000, gen = ([] :: real list), interactions = []\<rparr>) (4500, 4500)
       = pix (blank 5000 5000) (4500, 4500)"
proof -
  have h: "(4096::nat) < 4500 \<or> (4096::nat) < 4500"
    by simp
  from simulate_crs_beyond_4096 [OF run_far h] run_far h
  show ?thesis
    by simp
qed

end
